theory Spec2Isabelle
  imports Main "HOL-Library.AList"
begin

section \<open>Python values, exceptions and string operations\<close>

text \<open>
  Every \<^verbatim>\<open>raise_error(msg)\<close> of the two modules is a value \<open>Raised m\<close>, one
  constructor of \<open>message\<close> per call site; the exceptions Python and pandas raise by
  themselves keep their class names. A function that can raise returns \<open>error + 'a\<close>.
\<close>

datatype message =
    XNotArray | XTooManyDims | YNotArray | YNotOneDim | XYSamplesDiffer
  | ConfoundsNotArray | ConfoundsTooManyDims | XConfoundsSamplesDiffer
  | GroupsNotArray | GroupsNotOneDim
  | XNotStrOrList | YNotStr | ConfoundsNotStrOrList | GroupsNotStr | DfNotDataFrame
  | XMissingColumns | YMissingColumn | ConfoundsMissingColumns | GroupsMissingColumn
  | HyperparamScope | InvalidConfoundPreprocess
  | NotBinaryTarget | NotNumericTarget
  | NoValidColumn | SubsetWithoutSupport | SameTypeOnly | BadReturnedFeatures

datatype error =
    KeyError | AttributeError | ValueError | IndexError | TypeError
  | Raised message

text \<open>\<^verbatim>\<open>s.startswith(p)\<close>.\<close>

fun startswith :: "string \<Rightarrow> string \<Rightarrow> bool" where
  "startswith s [] = True"
| "startswith [] (p # ps) = False"
| "startswith (c # cs) (p # ps) = (c = p \<and> startswith cs ps)"

text \<open>
  \<^verbatim>\<open>s.split(sep)\<close> for a non-empty separator: the occurrences of \<open>sep\<close> are found
  from the left and do not overlap; the result is never empty. (The \<open>[]\<close> branch of
  the \<open>case\<close> is never taken.)
\<close>

function py_split :: "string \<Rightarrow> string \<Rightarrow> string list" where
  "py_split sep [] = [[]]"
| "py_split sep (c # cs) =
     (if sep \<noteq> [] \<and> startswith (c # cs) sep
      then [] # py_split sep (drop (length sep - 1) cs)
      else (case py_split sep cs of
              [] \<Rightarrow> [[c]]
            | p # ps \<Rightarrow> (c # p) # ps))"
  by pat_completeness auto
termination
  by (relation "measure (\<lambda>(sep, s). length s)") auto

text \<open>Python raises \<^verbatim>\<open>ValueError: empty separator\<close> when \<open>sep\<close> is empty.\<close>

definition str_split :: "string \<Rightarrow> string \<Rightarrow> error + string list" where
  "str_split s sep = (if sep = [] then Inl ValueError else Inr (py_split sep s))"

text \<open>\<^verbatim>\<open>sep.join(parts)\<close>.\<close>

fun py_join :: "string \<Rightarrow> string list \<Rightarrow> string" where
  "py_join sep [] = []"
| "py_join sep [p] = p"
| "py_join sep (p # q # ps) = p @ sep @ py_join sep (q # ps)"

text \<open>\<^verbatim>\<open>str(n)\<close> for a non-negative integer.\<close>

definition digit_char :: "nat \<Rightarrow> char" where
  "digit_char d = ''0123456789'' ! (d mod 10)"

function str_nat :: "nat \<Rightarrow> string" where
  "str_nat n =
     (if n < 10 then [digit_char n]
      else str_nat (n div 10) @ [digit_char (n mod 10)])"
  by pat_completeness auto
termination
  by (relation "measure id") auto

text \<open>\<^verbatim>\<open>s.lower()\<close> on ASCII text.\<close>

definition lower_char :: "char \<Rightarrow> char" where
  "lower_char c =
     (case map_of (zip ''ABCDEFGHIJKLMNOPQRSTUVWXYZ'' ''abcdefghijklmnopqrstuvwxyz'') c of
        Some l \<Rightarrow> l
      | None \<Rightarrow> c)"

definition lower :: "string \<Rightarrow> string" where
  "lower s = map lower_char s"

text \<open>
  \<^verbatim>\<open>int(s)\<close> on ASCII text: surrounding whitespace is stripped, one sign is
  allowed, and at least one decimal digit must follow. (A part of a string split
  on \<^verbatim>\<open>_\<close> holds no underscore, so digit grouping does not arise.)
\<close>

definition is_space :: "char \<Rightarrow> bool" where
  "is_space c = (c \<in> set [CHR '' '', CHR 0x09, CHR 0x0A, CHR 0x0B, CHR 0x0C, CHR 0x0D])"

definition strip :: "string \<Rightarrow> string" where
  "strip s = rev (dropWhile is_space (rev (dropWhile is_space s)))"

definition digit_val :: "char \<Rightarrow> nat option" where
  "digit_val c = map_of (zip ''0123456789'' [0 ..< 10]) c"

fun digits_val :: "nat \<Rightarrow> string \<Rightarrow> nat option" where
  "digits_val acc [] = Some acc"
| "digits_val acc (c # cs) =
     (case digit_val c of
        None \<Rightarrow> None
      | Some d \<Rightarrow> digits_val (10 * acc + d) cs)"

definition unsigned_val :: "string \<Rightarrow> nat option" where
  "unsigned_val s = (if s = [] then None else digits_val 0 s)"

definition py_int :: "string \<Rightarrow> error + int" where
  "py_int s =
     (case strip s of
        [] \<Rightarrow> Inl ValueError
      | c # cs \<Rightarrow>
          if c = CHR ''-'' then
            (case unsigned_val cs of None \<Rightarrow> Inl ValueError | Some n \<Rightarrow> Inr (- int n))
          else if c = CHR ''+'' then
            (case unsigned_val cs of None \<Rightarrow> Inl ValueError | Some n \<Rightarrow> Inr (int n))
          else
            (case unsigned_val (c # cs) of None \<Rightarrow> Inl ValueError | Some n \<Rightarrow> Inr (int n)))"

section \<open>pandas frames, column by column\<close>

text \<open>
  A frame is its list of labelled columns, in order; \<open>'c\<close> is the data of one column
  over the frame's row index. All frames of one call share the row index of the
  input table, so rows are not modelled.
\<close>

type_synonym 'c frame = "(string \<times> 'c) list"

definition columns :: "'c frame \<Rightarrow> string list" where
  "columns df = map fst df"

text \<open>
  \<^verbatim>\<open>df.loc[:, labels]\<close> with a list of labels: the columns in the order of
  \<open>labels\<close>; \<^verbatim>\<open>KeyError\<close> when a label is not a column.
\<close>

definition loc_columns :: "'c frame \<Rightarrow> string list \<Rightarrow> error + 'c frame" where
  "loc_columns df labels =
     (if set labels \<subseteq> set (columns df)
      then Inr (concat (map (\<lambda>l. filter (\<lambda>col. fst col = l) df) labels))
      else Inl KeyError)"

text \<open>
  \<^verbatim>\<open>df.loc[:, label].columns.to_list()\<close> with one label: \<^verbatim>\<open>KeyError\<close> when the
  label is not a column; when exactly one column has the label, \<^verbatim>\<open>loc\<close> returns
  a Series, which has no attribute \<^verbatim>\<open>columns\<close>.
\<close>

definition loc_label_columns :: "'c frame \<Rightarrow> string \<Rightarrow> error + string list" where
  "loc_label_columns df label =
     (let hits = filter (\<lambda>col. fst col = label) df in
      if hits = [] then Inl KeyError
      else if length hits = 1 then Inl AttributeError
      else Inr (columns hits))"

text \<open>\<^verbatim>\<open>df.drop(columns=labels)\<close>.\<close>

definition drop_columns :: "'c frame \<Rightarrow> string list \<Rightarrow> error + 'c frame" where
  "drop_columns df labels =
     (if set labels \<subseteq> set (columns df)
      then Inr (filter (\<lambda>col. fst col \<notin> set labels) df)
      else Inl KeyError)"

text \<open>
  \<^verbatim>\<open>df.reindex(columns=labels)\<close>: unchanged when the labels are the frame's own;
  otherwise the frame's labels must be unique, and a label the frame lacks gets
  the all-missing column \<open>na\<close>.
\<close>

definition reindex_columns :: "'c \<Rightarrow> 'c frame \<Rightarrow> string list \<Rightarrow> error + 'c frame" where
  "reindex_columns na df labels =
     (if columns df = labels then Inr df
      else if distinct (columns df)
      then Inr (map (\<lambda>l. (l, case map_of df l of Some c \<Rightarrow> c | None \<Rightarrow> na)) labels)
      else Inl ValueError)"

text \<open>\<^verbatim>\<open>df.columns = labels\<close>.\<close>

definition set_columns :: "'c frame \<Rightarrow> string list \<Rightarrow> error + 'c frame" where
  "set_columns df labels =
     (if length labels = length df then Inr (zip labels (map snd df))
      else Inl ValueError)"

text \<open>What \<^verbatim>\<open>get_support\<close> returns: a boolean mask, or integer indices.\<close>

datatype support = Mask "bool list" | Indices "nat list"

text \<open>\<^verbatim>\<open>index[support]\<close>.\<close>

definition index_select :: "string list \<Rightarrow> support \<Rightarrow> error + string list" where
  "index_select labels sel =
     (case sel of
        Mask m \<Rightarrow>
          if length m = length labels
          then Inr (map fst (filter snd (zip labels m)))
          else Inl IndexError
      | Indices ns \<Rightarrow>
          if list_all (\<lambda>i. i < length labels) ns
          then Inr (map (\<lambda>i. labels ! i) ns)
          else Inl IndexError)"

text \<open>
  What a wrapped transformer's \<^verbatim>\<open>transform\<close> returns: an array (its columns, no
  labels) or a frame. \<^verbatim>\<open>pd.DataFrame(out, index=...)\<close> followed by
  \<^verbatim>\<open>columns.astype(str)\<close> labels the columns of an array \<^verbatim>\<open>'0', '1', ...\<close> and
  keeps the labels of a frame.
\<close>

datatype 'c transformed = Array "'c list" | Frame "'c frame"

definition frame_of_transformed :: "'c transformed \<Rightarrow> 'c frame" where
  "frame_of_transformed out =
     (case out of
        Array cs \<Rightarrow> zip (map str_nat [0 ..< length cs]) cs
      | Frame df \<Rightarrow> df)"

section \<open>The typed transformer wrapper (transformers/dataframe.py)\<close>

text \<open>
  The wrapped transformer is an object outside the repository: its state, its
  \<^verbatim>\<open>fit\<close> and \<^verbatim>\<open>transform\<close> methods (either may raise), the name of its class, and
  its \<^verbatim>\<open>get_support\<close> method when it has one.
\<close>

record ('s, 'c, 'y) transformer =
  class_name :: string
  state :: 's
  fit_method :: "'s \<Rightarrow> 'c frame \<Rightarrow> 'y \<Rightarrow> error + 's"
  transform_method :: "'s \<Rightarrow> 'c frame \<Rightarrow> error + 'c transformed"
  get_support_method :: "('s \<Rightarrow> bool \<Rightarrow> error + support) option"

text \<open>\<^verbatim>\<open>transform_column\<close> is a string or a list of strings.\<close>

datatype column_spec = ColStr string | ColList "string list"

text \<open>
  The fields of \<^verbatim>\<open>DataFrameTransformer\<close>. \<open>transform_column_fitted\<close> is the
  attribute \<^verbatim>\<open>transform_column_\<close>, which exists only after \<^verbatim>\<open>fit\<close>.
\<close>

record ('s, 'c, 'y) wrapper =
  transformer :: "('s, 'c, 'y) transformer"
  transform_column :: column_spec
  returned_features :: string
  column_type_sep :: string
  transform_column_fitted :: "string list option"

definition column_types :: "string list" where
  "column_types = [''confound'', ''all'', ''all_features'', ''continuous'', ''categorical'']"

text \<open>\<^verbatim>\<open>_get_column_type\<close> (lines 184-190).\<close>

definition get_column_type :: "string \<Rightarrow> string \<Rightarrow> error + string" where
  "get_column_type sep column =
     (case str_split column sep of
        Inl e \<Rightarrow> Inl e
      | Inr column_type \<Rightarrow>
          if length column_type \<noteq> 2 then Inr ''continuous''
          else Inr (column_type ! 1))"

text \<open>
  The comprehension \<^verbatim>\<open>[column for column in columns if keep(_get_column_type(column))]\<close>;
  an exception of \<^verbatim>\<open>_get_column_type\<close> ends it.
\<close>

fun columns_where :: "string \<Rightarrow> (string \<Rightarrow> bool) \<Rightarrow> string list \<Rightarrow> error + string list" where
  "columns_where sep keep [] = Inr []"
| "columns_where sep keep (column # cols) =
     (case get_column_type sep column of
        Inl e \<Rightarrow> Inl e
      | Inr t \<Rightarrow>
          (case columns_where sep keep cols of
             Inl e \<Rightarrow> Inl e
           | Inr rest \<Rightarrow> Inr (if keep t then column # rest else rest)))"

text \<open>\<^verbatim>\<open>_get_columns_of_type\<close> (lines 192-206).\<close>

definition get_columns_of_type :: "string \<Rightarrow> string list \<Rightarrow> string \<Rightarrow> error + string list" where
  "get_columns_of_type sep cols column_type =
     (if column_type = ''all'' then Inr cols
      else if column_type = ''all_features''
      then columns_where sep (\<lambda>t. t \<noteq> ''confound'') cols
      else columns_where sep (\<lambda>t. t = column_type) cols)"

text \<open>\<^verbatim>\<open>_get_columns_of_types\<close> (lines 208-214).\<close>

fun get_columns_of_types :: "string \<Rightarrow> string list \<Rightarrow> string list \<Rightarrow> error + string list" where
  "get_columns_of_types sep cols [] = Inr []"
| "get_columns_of_types sep cols (column_type # others) =
     (case get_columns_of_type sep cols column_type of
        Inl e \<Rightarrow> Inl e
      | Inr valid \<Rightarrow>
          (case get_columns_of_types sep cols others of
             Inl e \<Rightarrow> Inl e
           | Inr rest \<Rightarrow> Inr (valid @ rest)))"

text \<open>
  \<^verbatim>\<open>_set_columns_to_transform\<close> (lines 157-182): the columns the selector picks in
  \<open>X\<close>, stored in \<^verbatim>\<open>transform_column_\<close>.
\<close>

definition resolve_columns :: "('s, 'c, 'y) wrapper \<Rightarrow> 'c frame \<Rightarrow> error + string list" where
  "resolve_columns w X =
     (case transform_column w of
        ColStr name \<Rightarrow>
          if name \<in> set column_types
          then get_columns_of_type (column_type_sep w) (columns X) name
          else loc_label_columns X name
      | ColList names \<Rightarrow>
          if list_all (\<lambda>column. column \<in> set column_types) names
          then get_columns_of_types (column_type_sep w) (columns X) names
          else (case loc_columns X names of
                  Inl e \<Rightarrow> Inl e
                | Inr df \<Rightarrow> Inr (columns df)))"

definition set_columns_to_transform ::
  "('s, 'c, 'y) wrapper \<Rightarrow> 'c frame \<Rightarrow> error + ('s, 'c, 'y) wrapper" where
  "set_columns_to_transform w X =
     (case resolve_columns w X of
        Inl e \<Rightarrow> Inl e
      | Inr cols \<Rightarrow>
          if cols = [] then Inl (Raised NoValidColumn)
          else Inr (w\<lparr>transform_column_fitted := Some cols\<rparr>))"

text \<open>\<^verbatim>\<open>fit\<close> (lines 63-69).\<close>

definition fit :: "('s, 'c, 'y) wrapper \<Rightarrow> 'c frame \<Rightarrow> 'y \<Rightarrow> error + ('s, 'c, 'y) wrapper" where
  "fit w X y =
     (case set_columns_to_transform w X of
        Inl e \<Rightarrow> Inl e
      | Inr w' \<Rightarrow>
          (case loc_columns X (the (transform_column_fitted w')) of
             Inl e \<Rightarrow> Inl e
           | Inr X_transform \<Rightarrow>
               (case fit_method (transformer w') (state (transformer w')) X_transform y of
                  Inl e \<Rightarrow> Inl e
                | Inr s \<Rightarrow> Inr (w'\<lparr>transformer := (transformer w')\<lparr>state := s\<rparr>\<rparr>))))"

text \<open>
  The generated names of the policies \<^verbatim>\<open>unknown\<close> and \<^verbatim>\<open>unknown_same_type\<close>:
  \<^verbatim>\<open>f'{transformer_name}_component:{n_column}{sep}{tag}'\<close>.
\<close>

definition component_name :: "string \<Rightarrow> nat \<Rightarrow> string \<Rightarrow> string \<Rightarrow> string" where
  "component_name transformer_name n_column sep tag =
     transformer_name @ ''_component:'' @ str_nat n_column @ sep @ tag"

text \<open>
  The comprehension of lines 116-119 over \<^verbatim>\<open>enumerate(X_transformed.columns)\<close>,
  from position \<open>n_column\<close> on.
\<close>

fun same_type_names :: "string \<Rightarrow> string \<Rightarrow> nat \<Rightarrow> string list \<Rightarrow> error + string list" where
  "same_type_names transformer_name sep n_column [] = Inr []"
| "same_type_names transformer_name sep n_column (column # cols) =
     (case get_column_type sep column of
        Inl e \<Rightarrow> Inl e
      | Inr t \<Rightarrow>
          (case same_type_names transformer_name sep (Suc n_column) cols of
             Inl e \<Rightarrow> Inl e
           | Inr rest \<Rightarrow> Inr (component_name transformer_name n_column sep t # rest)))"

text \<open>
  The condition of lines 106-109; Python reads \<^verbatim>\<open>A and B or C\<close> as
  \<^verbatim>\<open>(A and B) or C\<close>, and a list is never \<^verbatim>\<open>in ['all', 'all_features']\<close>.
\<close>

definition spans_several_types :: "column_spec \<Rightarrow> bool" where
  "spans_several_types tc =
     (case tc of
        ColList names \<Rightarrow> length names > 1
      | ColStr name \<Rightarrow> name \<in> set [''all'', ''all_features''])"

text \<open>
  The second half of \<^verbatim>\<open>transform\<close> (lines 80-133): the output table, from the
  input table \<open>X\<close>, its slice \<open>X_transform\<close>, the other columns \<open>X_rest\<close> and the
  transformer's output as a frame. \<^verbatim>\<open>pd.concat(..., axis=1)\<close> puts the columns
  of its arguments one after the other.
\<close>

definition reassemble ::
  "'c \<Rightarrow> ('s, 'c, 'y) wrapper \<Rightarrow> 'c frame \<Rightarrow> 'c frame \<Rightarrow> 'c frame \<Rightarrow> 'c frame \<Rightarrow> error + 'c frame" where
  "reassemble na w X X_transform X_rest X_transformed =
     (let transformer_name = lower (class_name (transformer w)) in
      if returned_features w = ''same'' then
        (case set_columns X_transformed (columns X_transform) of
           Inl e \<Rightarrow> Inl e
         | Inr named \<Rightarrow> reindex_columns na (named @ X_rest) (columns X))
      else if returned_features w = ''subset'' then
        (case get_support_method (transformer w) of
           None \<Rightarrow> Inl (Raised SubsetWithoutSupport)
         | Some get \<Rightarrow>
             (case get (state (transformer w)) False of
                Inl e \<Rightarrow> Inl e
              | Inr sel \<Rightarrow>
                  (case index_select (columns X_transform) sel of
                     Inl e \<Rightarrow> Inl e
                   | Inr labels \<Rightarrow>
                       (case set_columns X_transformed labels of
                          Inl e \<Rightarrow> Inl e
                        | Inr named \<Rightarrow> Inr (named @ X_rest)))))
      else if returned_features w = ''unknown'' then
        (case set_columns X_transformed
                (map (\<lambda>n_column. component_name transformer_name n_column
                                    (column_type_sep w) ''continuous'')
                     [0 ..< length (columns X_transformed)]) of
           Inl e \<Rightarrow> Inl e
         | Inr named \<Rightarrow> Inr (named @ X_rest))
      else if returned_features w = ''unknown_same_type'' then
        (if spans_several_types (transform_column w) then Inl (Raised SameTypeOnly)
         else
           (case same_type_names transformer_name (column_type_sep w) 0
                   (columns X_transformed) of
              Inl e \<Rightarrow> Inl e
            | Inr labels \<Rightarrow>
                (case set_columns X_transformed labels of
                   Inl e \<Rightarrow> Inl e
                 | Inr named \<Rightarrow> Inr (named @ X_rest))))
      else if returned_features w = ''from_transformer'' then
        Inr (X_rest @ X_transformed)
      else Inl (Raised BadReturnedFeatures))"

text \<open>
  \<^verbatim>\<open>transform\<close> (lines 71-133). \<open>na\<close> is the all-missing column of
  \<open>reindex_columns\<close>. Reading \<^verbatim>\<open>transform_column_\<close> before \<^verbatim>\<open>fit\<close> is an
  \<^verbatim>\<open>AttributeError\<close>.
\<close>

definition transform :: "'c \<Rightarrow> ('s, 'c, 'y) wrapper \<Rightarrow> 'c frame \<Rightarrow> error + 'c frame" where
  "transform na w X =
     (case transform_column_fitted w of
        None \<Rightarrow> Inl AttributeError
      | Some cols \<Rightarrow>
          (case loc_columns X cols of
             Inl e \<Rightarrow> Inl e
           | Inr X_transform \<Rightarrow>
               (case drop_columns X cols of
                  Inl e \<Rightarrow> Inl e
                | Inr X_rest \<Rightarrow>
                    (case transform_method (transformer w) (state (transformer w)) X_transform of
                       Inl e \<Rightarrow> Inl e
                     | Inr out \<Rightarrow>
                         reassemble na w X X_transform X_rest (frame_of_transformed out)))))"

text \<open>
  \<^verbatim>\<open>get_support\<close> (lines 154-155): the method has no \<^verbatim>\<open>return\<close>, so its value is
  Python's \<^verbatim>\<open>None\<close>, here \<open>Inr None\<close>.
\<close>

definition get_support :: "('s, 'c, 'y) wrapper \<Rightarrow> bool \<Rightarrow> error + support option" where
  "get_support w indices =
     (case get_support_method (transformer w) of
        None \<Rightarrow> Inl AttributeError
      | Some get \<Rightarrow>
          (case get (state (transformer w)) indices of
             Inl e \<Rightarrow> Inl e
           | Inr sel \<Rightarrow> Inr None))"

section \<open>Input validation (prepare.py, \<^verbatim>\<open>_validate_input_data\<close>)\<close>

text \<open>
  What the caller may pass for \<^verbatim>\<open>X\<close>, \<^verbatim>\<open>y\<close>, \<^verbatim>\<open>confounds\<close> and \<^verbatim>\<open>groups\<close>: a numpy
  array (only its shape matters here), a string, a list of strings, or something
  else; Python's \<^verbatim>\<open>None\<close> is \<open>None\<close>. For \<^verbatim>\<open>df\<close>: a frame (its column labels) or
  something else.
\<close>

datatype input = InArray "nat list" | InStr string | InList "string list" | InOther

datatype table = DataFrame "string list" | NotDataFrame

datatype warning =
    YIsGroups | GroupsInX | YInX
  | BinaryWithTransformer | MulticlassTwoClasses
  | NotNumericWithTransformer | RegressionTwoValues | GroupsIgnored

fun is_ndarray :: "input \<Rightarrow> bool" where
  "is_ndarray (InArray s) = True"
| "is_ndarray a = False"

fun shape :: "input \<Rightarrow> nat list" where
  "shape (InArray s) = s"
| "shape a = []"

definition ndim :: "input \<Rightarrow> nat" where
  "ndim a = length (shape a)"

text \<open>\<^verbatim>\<open>a.shape[0]\<close>; the source reads it only after checking \<^verbatim>\<open>a.ndim\<close>.\<close>

definition shape0 :: "input \<Rightarrow> nat" where
  "shape0 a = hd (shape a)"

fun is_str :: "input \<Rightarrow> bool" where
  "is_str (InStr s) = True"
| "is_str a = False"

fun is_list :: "input \<Rightarrow> bool" where
  "is_list (InList l) = True"
| "is_list a = False"

text \<open>\<^verbatim>\<open>if not isinstance(X, list): X = [X]\<close>, for a string or a list.\<close>

fun as_list :: "input \<Rightarrow> string list" where
  "as_list (InList l) = l"
| "as_list (InStr s) = [s]"
| "as_list a = []"

fun as_str :: "input \<Rightarrow> string" where
  "as_str (InStr s) = s"
| "as_str a = []"

definition validate_input_data ::
  "input \<Rightarrow> input \<Rightarrow> input option \<Rightarrow> table option \<Rightarrow> input option \<Rightarrow> error + warning list" where
  "validate_input_data X y confounds df groups =
     (case df of
        None \<Rightarrow>
          if \<not> is_ndarray X then Inl (Raised XNotArray)
          else if ndim X \<notin> set [1, 2] then Inl (Raised XTooManyDims)
          else if \<not> is_ndarray y then Inl (Raised YNotArray)
          else if ndim y \<noteq> 1 then Inl (Raised YNotOneDim)
          else if shape0 X \<noteq> shape0 y then Inl (Raised XYSamplesDiffer)
          else if confounds \<noteq> None \<and> \<not> is_ndarray (the confounds)
          then Inl (Raised ConfoundsNotArray)
          else if confounds \<noteq> None \<and> ndim (the confounds) \<notin> set [1, 2]
          then Inl (Raised ConfoundsTooManyDims)
          else if confounds \<noteq> None \<and> shape0 X \<noteq> shape0 (the confounds)
          then Inl (Raised XConfoundsSamplesDiffer)
          else if groups \<noteq> None \<and> \<not> is_ndarray (the groups)
          then Inl (Raised GroupsNotArray)
          else if groups \<noteq> None \<and> ndim (the groups) \<noteq> 1
          then Inl (Raised GroupsNotOneDim)
          else Inr []
      | Some d \<Rightarrow>
          if \<not> (is_str X \<or> is_list X) then Inl (Raised XNotStrOrList)
          else if \<not> is_str y then Inl (Raised YNotStr)
          else if confounds \<noteq> None \<and> \<not> (is_str (the confounds) \<or> is_list (the confounds))
          then Inl (Raised ConfoundsNotStrOrList)
          else if groups \<noteq> None \<and> \<not> is_str (the groups) then Inl (Raised GroupsNotStr)
          else
            (case d of
               NotDataFrame \<Rightarrow> Inl (Raised DfNotDataFrame)
             | DataFrame df_columns \<Rightarrow>
                 if filter (\<lambda>t_x. t_x \<notin> set df_columns) (as_list X) \<noteq> []
                 then Inl (Raised XMissingColumns)
                 else if as_str y \<notin> set df_columns then Inl (Raised YMissingColumn)
                 else if confounds \<noteq> None \<and>
                         filter (\<lambda>t_c. t_c \<notin> set df_columns) (as_list (the confounds)) \<noteq> []
                 then Inl (Raised ConfoundsMissingColumns)
                 else if groups \<noteq> None \<and> as_str (the groups) \<notin> set df_columns
                 then Inl (Raised GroupsMissingColumn)
                 else Inr
                   ((if groups \<noteq> None \<and> as_str (the groups) = as_str y then [YIsGroups] else []) @
                    (if groups \<noteq> None \<and> as_str (the groups) \<in> set (as_list X)
                     then [GroupsInX] else []) @
                    (if as_str y \<in> set (as_list X) then [YInX] else []))))"

section \<open>Hyperparameters (prepare.py, \<^verbatim>\<open>_prepare_hyperparams\<close>)\<close>

text \<open>A hyperparameter value: a number, a string, or a list of values.\<close>

datatype pyval = PInt int | PStr string | PList "pyval list"

text \<open>\<^verbatim>\<open>hasattr(val, '__iter__')\<close>: strings and lists iterate, numbers do not.\<close>

fun has_iter :: "pyval \<Rightarrow> bool" where
  "has_iter (PInt i) = False"
| "has_iter (PStr s) = True"
| "has_iter (PList vs) = True"

fun is_pystr :: "pyval \<Rightarrow> bool" where
  "is_pystr (PStr s) = True"
| "is_pystr v = False"

text \<open>\<^verbatim>\<open>len(val)\<close>, read only where \<^verbatim>\<open>val\<close> is iterable.\<close>

fun py_len :: "pyval \<Rightarrow> nat" where
  "py_len (PList vs) = length vs"
| "py_len (PStr s) = length s"
| "py_len (PInt i) = 0"

text \<open>
  The pipeline is an object outside the module: its state, its method
  \<^verbatim>\<open>set_params\<close> called with one keyword argument, and the attribute
  \<^verbatim>\<open>set_param\<close> that line 327 looks up (\<open>None\<close> when the object has no such
  attribute, as for scikit-learn's estimators and pipelines).
\<close>

record 'p pipeline =
  pipeline_state :: 'p
  set_params_method :: "'p \<Rightarrow> string \<Rightarrow> pyval \<Rightarrow> error + 'p"
  set_param_method :: "('p \<Rightarrow> pyval \<Rightarrow> error + 'p) option"

text \<open>
  \<^verbatim>\<open>rename_param\<close> (lines 299-316). \<^verbatim>\<open>first, *rest = ...\<close> needs at least one
  part.
\<close>

definition rename_param :: "string \<Rightarrow> string \<Rightarrow> error + string" where
  "rename_param model_name param =
     (case py_split ''__'' param of
        [] \<Rightarrow> Inl ValueError
      | first # rest \<Rightarrow>
          if first = ''features''
          then Inr (py_join ''__'' (''dataframe_pipeline'' # rest))
          else if first = ''confounds''
          then Inr (py_join ''__'' (''confound_dataframe_pipeline'' # rest))
          else if first = ''target''
          then Inr (py_join ''__'' (''y_transformer'' # rest))
          else if first = model_name
          then Inr (py_join ''__'' ((''dataframe_pipeline__'' @ first) # rest))
          else Inl (Raised HyperparamScope))"

text \<open>
  The loop of lines 318-330 over \<^verbatim>\<open>hyperparams.items()\<close>, with the pipeline and the
  dictionary \<^verbatim>\<open>to_tune\<close> as they stand; \<^verbatim>\<open>to_tune[k] = val\<close> is \<open>AList.update\<close>.
\<close>

fun tune_loop ::
  "string \<Rightarrow> (string \<times> pyval) list \<Rightarrow> 'p pipeline \<Rightarrow> (string \<times> pyval) list \<Rightarrow>
   error + ('p pipeline \<times> (string \<times> pyval) list)" where
  "tune_loop model_name [] pipeline to_tune = Inr (pipeline, to_tune)"
| "tune_loop model_name ((param, val) # items) pipeline to_tune =
     (if has_iter val \<and> \<not> is_pystr val then
        (if py_len val > 1 then
           (case rename_param model_name param of
              Inl e \<Rightarrow> Inl e
            | Inr name \<Rightarrow>
                tune_loop model_name items pipeline (AList.update name val to_tune))
         else
           (case set_param_method pipeline of
              None \<Rightarrow> Inl AttributeError
            | Some set_param \<Rightarrow>
                (case set_param (pipeline_state pipeline) val of
                   Inl e \<Rightarrow> Inl e
                 | Inr p \<Rightarrow>
                     tune_loop model_name items (pipeline\<lparr>pipeline_state := p\<rparr>) to_tune)))
      else
        (case rename_param model_name param of
           Inl e \<Rightarrow> Inl e
         | Inr name \<Rightarrow>
             (case set_params_method pipeline (pipeline_state pipeline) name val of
                Inl e \<Rightarrow> Inl e
              | Inr p \<Rightarrow>
                  tune_loop model_name items (pipeline\<lparr>pipeline_state := p\<rparr>) to_tune)))"

text \<open>
  \<^verbatim>\<open>_prepare_hyperparams\<close> (lines 297-330): the pipeline as the calls left it, and
  \<^verbatim>\<open>to_tune\<close>.
\<close>

definition prepare_hyperparams ::
  "(string \<times> pyval) list \<Rightarrow> 'p pipeline \<Rightarrow> string \<Rightarrow>
   error + ('p pipeline \<times> (string \<times> pyval) list)" where
  "prepare_hyperparams hyperparams pipeline model_name =
     tune_loop model_name hyperparams pipeline []"

section \<open>Preprocessing steps (prepare.py)\<close>

text \<open>
  A transformer object as this module sees it: the name of its class and the
  attributes \<^verbatim>\<open>hasattr\<close> asks for.
\<close>

record estimator =
  estimator_class :: string
  has_fit :: bool
  has_transform :: bool
  has_get_params :: bool
  has_set_params :: bool

text \<open>A step tuple: \<^verbatim>\<open>(trans_name, trans, returned_features, transform_columns)\<close>.\<close>

type_synonym step_tuple = "string \<times> estimator \<times> string \<times> column_spec"

text \<open>
  What the user gives for one step: a name, a transformer object, or a list that
  already holds a step.
\<close>

datatype step = StepStr string | StepObj estimator | StepList step_tuple

text \<open>What \<^verbatim>\<open>_create_preprocess_tuple\<close> returns: a tuple, or the user's list as it is.\<close>

datatype built = BuiltTuple step_tuple | BuiltList step_tuple

definition is_valid_sklearn_transformer :: "estimator \<Rightarrow> bool" where
  "is_valid_sklearn_transformer t =
     (has_fit t \<and> has_transform t \<and> has_get_params t \<and> has_set_params t)"

text \<open>
  scikit-learn's \<^verbatim>\<open>clone\<close>: a copy with the same parameters; \<^verbatim>\<open>TypeError\<close> for an
  object without \<^verbatim>\<open>get_params\<close>.
\<close>

definition clone :: "estimator \<Rightarrow> error + estimator" where
  "clone t = (if has_get_params t then Inr t else Inl TypeError)"

text \<open>
  \<^verbatim>\<open>_create_preprocess_tuple\<close> (lines 441-456). \<open>get_transformer\<close> is the factory of
  the module \<^verbatim>\<open>transformers\<close>: from a name to a transformer and its policy, or an
  error.
\<close>

definition create_preprocess_tuple ::
  "(string \<Rightarrow> error + estimator \<times> string) \<Rightarrow> step \<Rightarrow> error + built" where
  "create_preprocess_tuple get_transformer st =
     (let transform_columns = (\<lambda>trans_name.
            if trans_name = ''remove_confound''
            then ColList [''continuous'', ''confound'']
            else ColStr ''continuous'') in
      case st of
        StepList l \<Rightarrow> Inr (BuiltList l)
      | StepStr trans_name \<Rightarrow>
          (case get_transformer trans_name of
             Inl e \<Rightarrow> Inl e
           | Inr (tr, rf) \<Rightarrow>
               Inr (BuiltTuple (trans_name, tr, rf, transform_columns trans_name)))
      | StepObj t \<Rightarrow>
          (case clone t of
             Inl e \<Rightarrow> Inl e
           | Inr tr \<Rightarrow>
               Inr (BuiltTuple (lower (estimator_class t), tr, ''unknown'',
                                transform_columns (lower (estimator_class t))))))"

text \<open>
  \<^verbatim>\<open>_get_confound_transformer\<close> (lines 355-363), its second component: the policy.
  A list has none of the four attributes.
\<close>

definition get_confound_transformer ::
  "(string \<Rightarrow> error + estimator \<times> string) \<Rightarrow> step \<Rightarrow> error + string" where
  "get_confound_transformer get_transformer conf =
     (case conf of
        StepStr name \<Rightarrow>
          (case get_transformer name of
             Inl e \<Rightarrow> Inl e
           | Inr (tr, rf) \<Rightarrow> Inr rf)
      | StepObj t \<Rightarrow>
          if \<not> is_valid_sklearn_transformer t then Inl (Raised InvalidConfoundPreprocess)
          else Inr ''unknown_same_type''
      | StepList l \<Rightarrow> Inl (Raised InvalidConfoundPreprocess))"

text \<open>The loop of lines 375-379, with \<^verbatim>\<open>returned_features\<close> (here \<open>policy\<close>) as it stands.\<close>

fun confound_policy_loop ::
  "(string \<Rightarrow> error + estimator \<times> string) \<Rightarrow> step list \<Rightarrow> string \<Rightarrow> error + string" where
  "confound_policy_loop get_transformer [] policy = Inr policy"
| "confound_policy_loop get_transformer (st # steps) policy =
     (case get_confound_transformer get_transformer st of
        Inl e \<Rightarrow> Inl e
      | Inr rf \<Rightarrow>
          confound_policy_loop get_transformer steps
            (if rf = ''unknown'' then ''unknown_same_type'' else rf))"

text \<open>The comprehension of lines 381-386.\<close>

fun create_all ::
  "(string \<Rightarrow> error + estimator \<times> string) \<Rightarrow> step list \<Rightarrow> error + built list" where
  "create_all get_transformer [] = Inr []"
| "create_all get_transformer (st # steps) =
     (case create_preprocess_tuple get_transformer st of
        Inl e \<Rightarrow> Inl e
      | Inr b \<Rightarrow>
          (case create_all get_transformer steps of
             Inl e \<Rightarrow> Inl e
           | Inr bs \<Rightarrow> Inr (b # bs)))"

text \<open>
  The comprehension of lines 388-389: \<^verbatim>\<open>step[:2] + (returned_features,) + (step[-1],)\<close>;
  a list and a tuple do not add.
\<close>

fun replace_policy :: "string \<Rightarrow> built list \<Rightarrow> error + step_tuple list" where
  "replace_policy policy [] = Inr []"
| "replace_policy policy (BuiltList l # bs) = Inl TypeError"
| "replace_policy policy (BuiltTuple (trans_name, tr, rf, cols) # bs) =
     (case replace_policy policy bs of
        Inl e \<Rightarrow> Inl e
      | Inr ts \<Rightarrow> Inr ((trans_name, tr, policy, cols) # ts))"

text \<open>\<^verbatim>\<open>_prepare_preprocess_confounds\<close> (lines 366-391), for a list of steps.\<close>

definition prepare_preprocess_confounds ::
  "(string \<Rightarrow> error + estimator \<times> string) \<Rightarrow> step list \<Rightarrow> error + step_tuple list" where
  "prepare_preprocess_confounds get_transformer preprocess_conf =
     (case confound_policy_loop get_transformer preprocess_conf ''unknown_same_type'' of
        Inl e \<Rightarrow> Inl e
      | Inr policy \<Rightarrow>
          (case create_all get_transformer preprocess_conf of
             Inl e \<Rightarrow> Inl e
           | Inr bs \<Rightarrow> replace_policy policy bs))"

section \<open>Cross-validation (prepare.py, \<^verbatim>\<open>prepare_cv\<close>)\<close>

text \<open>
  The splitters this module names, and any other one. The arguments of
  \<open>RepeatedKFold\<close> are \<^verbatim>\<open>n_splits\<close> and \<^verbatim>\<open>n_repeats\<close>, in this order.
\<close>

datatype splitter =
    RepeatedKFold int int
  | KFold int
  | GroupKFold | GroupShuffleSplit | LeaveOneGroupOut | LeavePGroupsOut
  | OtherSplitter

text \<open>What \<^verbatim>\<open>cv\<close> may be: a string, an integer, or a splitter object.\<close>

datatype cv_arg = CvStr string | CvInt int | CvSplitter splitter

text \<open>
  scikit-learn's \<^verbatim>\<open>check_cv\<close>, as documented: an integer of at least 2 gives a
  k-fold splitter, a splitter is returned as it is, and a string (or a smaller
  integer) is a \<^verbatim>\<open>ValueError\<close>.
\<close>

definition check_cv :: "cv_arg \<Rightarrow> error + splitter" where
  "check_cv cv =
     (case cv of
        CvStr s \<Rightarrow> Inl ValueError
      | CvInt n \<Rightarrow> if n \<ge> 2 then Inr (KFold n) else Inl ValueError
      | CvSplitter sp \<Rightarrow> Inr sp)"

text \<open>
  scikit-learn's constructor \<^verbatim>\<open>RepeatedKFold(n_splits=..., n_repeats=...)\<close>: it
  refuses a number of repetitions below 1 with a \<^verbatim>\<open>ValueError\<close> and does not look
  at the number of folds.
\<close>

definition repeated_kfold :: "int \<Rightarrow> int \<Rightarrow> error + splitter" where
  "repeated_kfold folds repeats =
     (if repeats \<le> 0 then Inl ValueError else Inr (RepeatedKFold folds repeats))"

text \<open>
  \<^verbatim>\<open>parser\<close> (lines 420-426). Unpacking \<^verbatim>\<open>cv_string.split('_')\<close> into two names is
  a \<^verbatim>\<open>ValueError\<close> unless there are exactly two parts; \<^verbatim>\<open>name.split(':')[-1]\<close> is the
  last part.
\<close>

definition parser :: "string \<Rightarrow> error + splitter" where
  "parser cv_string =
     (case py_split ''_'' cv_string of
        [n_repeats, n_folds] \<Rightarrow>
          (case py_int (last (py_split '':'' n_repeats)) of
             Inl e \<Rightarrow> Inl e
           | Inr repeats \<Rightarrow>
               (case py_int (last (py_split '':'' n_folds)) of
                  Inl e \<Rightarrow> Inl e
                | Inr folds \<Rightarrow> repeated_kfold folds repeats))
      | parts \<Rightarrow> Inl ValueError)"

text \<open>
  \<^verbatim>\<open>prepare_cv\<close> (lines 407-434): only a \<^verbatim>\<open>ValueError\<close> of \<^verbatim>\<open>check_cv\<close> is caught;
  an integer has no attribute \<^verbatim>\<open>split\<close>.
\<close>

definition prepare_cv :: "cv_arg \<Rightarrow> error + splitter" where
  "prepare_cv cv =
     (case check_cv cv of
        Inr sp \<Rightarrow> Inr sp
      | Inl e \<Rightarrow>
          if e = ValueError then
            (case cv of
               CvStr cv_string \<Rightarrow> parser cv_string
             | CvInt n \<Rightarrow> Inl AttributeError
             | CvSplitter sp \<Rightarrow> Inl AttributeError)
          else Inl e)"

section \<open>Consistency (prepare.py, \<^verbatim>\<open>check_consistency\<close>)\<close>

text \<open>The target series: its values, and whether its dtype is a number type.\<close>

record 'a series =
  series_data :: "'a list"
  numeric_dtype :: bool

text \<open>\<^verbatim>\<open>np.unique(y.values).shape[0]\<close>.\<close>

definition n_unique :: "'a series \<Rightarrow> nat" where
  "n_unique y = length (remdups (series_data y))"

definition is_group_cv :: "splitter \<Rightarrow> bool" where
  "is_group_cv cv =
     (cv \<in> set [GroupKFold, GroupShuffleSplit, LeaveOneGroupOut, LeavePGroupsOut])"

text \<open>
  \<^verbatim>\<open>check_consistency\<close> (lines 474-530), with the arguments the body reads: the
  warnings in the order they are given, or the error raised.
\<close>

definition check_consistency ::
  "'t option \<Rightarrow> 'a series \<Rightarrow> splitter \<Rightarrow> 'g option \<Rightarrow> string \<Rightarrow> error + warning list" where
  "check_consistency preprocess_y y cv groups problem_type =
     (let n_classes = n_unique y;
          groups_warning = (if groups \<noteq> None \<and> \<not> is_group_cv cv then [GroupsIgnored] else []) in
      if problem_type = ''binary_classification'' then
        (if n_classes \<noteq> 2 then
           (if preprocess_y = None then Inl (Raised NotBinaryTarget)
            else Inr (BinaryWithTransformer # groups_warning))
         else Inr groups_warning)
      else if problem_type = ''multiclass_classification'' then
        (if n_classes = 2 then Inr (MulticlassTwoClasses # groups_warning)
         else Inr groups_warning)
      else
        (if \<not> numeric_dtype y then
           (if preprocess_y = None then Inl (Raised NotNumericTarget)
            else Inr (NotNumericWithTransformer # groups_warning))
         else if n_classes = 2 then Inr (RegressionTwoValues # groups_warning)
         else Inr groups_warning))"

section \<open>Example objects\<close>

text \<open>
  Concrete transformers, wrappers, pipelines and factories, on which the theorems
  below are evaluated. A column holds a list of integers.
\<close>

definition identity_transformer :: "string \<Rightarrow> (unit, int list, unit) transformer" where
  "identity_transformer name =
     \<lparr>class_name = name, state = (),
      fit_method = (\<lambda>s X y. Inr s),
      transform_method = (\<lambda>s X. Inr (Array (map snd X))),
      get_support_method = None\<rparr>"

definition selecting_transformer :: "(unit, int list, unit) transformer" where
  "selecting_transformer =
     \<lparr>class_name = ''SelectKBest'', state = (),
      fit_method = (\<lambda>s X y. Inr s),
      transform_method = (\<lambda>s X. Inr (Array (take 1 (map snd X)))),
      get_support_method =
        Some (\<lambda>s indices. Inr (if indices then Indices [0] else Mask [True, False]))\<rparr>"

text \<open>The constructor with the default separator; nothing is fitted yet.\<close>

definition make_wrapper ::
  "('s, 'c, 'y) transformer \<Rightarrow> column_spec \<Rightarrow> string \<Rightarrow> ('s, 'c, 'y) wrapper" where
  "make_wrapper t tc rf =
     \<lparr>transformer = t, transform_column = tc, returned_features = rf,
      column_type_sep = ''__:type:__'', transform_column_fitted = None\<rparr>"

text \<open>
  A pipeline with the scikit-learn interface: \<^verbatim>\<open>set_params\<close> records the
  assignment, and there is no attribute \<^verbatim>\<open>set_param\<close>.
\<close>

definition sklearn_pipeline :: "(string \<times> pyval) list pipeline" where
  "sklearn_pipeline =
     \<lparr>pipeline_state = [],
      set_params_method = (\<lambda>p name val. Inr (AList.update name val p)),
      set_param_method = None\<rparr>"

definition some_estimator :: estimator where
  "some_estimator =
     \<lparr>estimator_class = ''StandardScaler'', has_fit = True, has_transform = True,
      has_get_params = True, has_set_params = True\<rparr>"

definition example_get_transformer :: "string \<Rightarrow> error + estimator \<times> string" where
  "example_get_transformer name =
     (if name = ''zscore'' then Inr (some_estimator, ''same'')
      else if name = ''pca'' then Inr (some_estimator, ''unknown'')
      else Inl ValueError)"

text \<open>
  A table with one confound and one continuous feature, and a wrapper that
  sends the confounds through a transformer of class \<^verbatim>\<open>PCA\<close> under the policy
  \<^verbatim>\<open>unknown_same_type\<close>.
\<close>

definition age_table :: "int list frame" where
  "age_table = [(''age__:type:__confound'', [30, 41]), (''x__:type:__continuous'', [1, 2])]"

definition pca_on_confounds :: "(unit, int list, unit) wrapper" where
  "pca_on_confounds =
     make_wrapper (identity_transformer ''PCA'') (ColStr ''confound'') ''unknown_same_type''"

section \<open>The wrapper's \<^verbatim>\<open>get_support\<close>\<close>

text \<open>
  Claim C10. For a wrapped transformer that has a \<^verbatim>\<open>get_support\<close> method and for
  either value of \<^verbatim>\<open>indices\<close>, the wrapper's \<^verbatim>\<open>get_support(indices)\<close> calls that
  method and, when the call returns, returns \<^verbatim>\<open>None\<close>: whatever support \<open>sel\<close> the
  transformer gave is dropped.
\<close>

theorem get_support_returns_None:
  assumes "get_support_method (transformer w) = Some get"
      and "get (state (transformer w)) indices = Inr sel"
  shows "get_support w indices = Inr None"
  using assms by (simp add: get_support_def)

theorem get_support_returns_None_witness:
  "get_support (make_wrapper selecting_transformer (ColStr ''all'') ''subset'') True = Inr None
   \<and> get_support (make_wrapper selecting_transformer (ColStr ''all'') ''subset'') False = Inr None"
  using get_support_returns_None
          [of "make_wrapper selecting_transformer (ColStr ''all'') ''subset''" _ True "Indices [0]"]
        get_support_returns_None
          [of "make_wrapper selecting_transformer (ColStr ''all'') ''subset''" _ False
              "Mask [True, False]"]
  by (simp add: make_wrapper_def selecting_transformer_def)

section \<open>Consistency of a binary classification\<close>

text \<open>
  Claim C8. For the problem type \<^verbatim>\<open>binary_classification\<close>, the check raises if and
  only if the target has a number of distinct values other than 2 and no target
  transformer is given; the error is then the one of lines 485-489. With such a
  target and a target transformer, it returns, and its first warning is the one
  of lines 491-494.
\<close>

theorem binary_classification_fatal_iff:
  "(isl (check_consistency preprocess_y y cv groups ''binary_classification'')
      \<longleftrightarrow> n_unique y \<noteq> 2 \<and> preprocess_y = None)
   \<and> (n_unique y \<noteq> 2 \<and> preprocess_y = None \<longrightarrow>
        check_consistency preprocess_y y cv groups ''binary_classification''
          = Inl (Raised NotBinaryTarget))
   \<and> (n_unique y \<noteq> 2 \<and> preprocess_y \<noteq> None \<longrightarrow>
        (\<exists>ws. check_consistency preprocess_y y cv groups ''binary_classification''
          = Inr (BinaryWithTransformer # ws)))"
  by (simp add: check_consistency_def Let_def)

theorem binary_classification_fatal_iff_witness:
  "check_consistency (None :: unit option) \<lparr>series_data = [1, 2, 3 :: int], numeric_dtype = True\<rparr>
      OtherSplitter (None :: unit option) ''binary_classification'' = Inl (Raised NotBinaryTarget)
   \<and> (\<exists>ws. check_consistency (Some ()) \<lparr>series_data = [1, 2, 3 :: int], numeric_dtype = True\<rparr>
      OtherSplitter (None :: unit option) ''binary_classification''
        = Inr (BinaryWithTransformer # ws))"
  using binary_classification_fatal_iff
          [of "None :: unit option" "\<lparr>series_data = [1, 2, 3 :: int], numeric_dtype = True\<rparr>"
              OtherSplitter "None :: unit option"]
        binary_classification_fatal_iff
          [of "Some ()" "\<lparr>series_data = [1, 2, 3 :: int], numeric_dtype = True\<rparr>"
              OtherSplitter "None :: unit option"]
  by (simp add: n_unique_def)

section \<open>Validation of arrays\<close>

text \<open>
  Claim C9. Without a table, \<^verbatim>\<open>confounds\<close> with another number of samples than
  \<^verbatim>\<open>X\<close> is refused (lines 55-58), but \<^verbatim>\<open>groups\<close> is only checked for its class and
  its rank (lines 60-67): with \<^verbatim>\<open>X\<close> of shape (10, 3), \<^verbatim>\<open>y\<close> of shape (10,) and
  \<^verbatim>\<open>groups\<close> of shape (7,), the validation returns without an error.
\<close>

theorem groups_sample_count_not_checked:
  "validate_input_data (InArray [10, 3]) (InArray [10]) None None (Some (InArray [7])) = Inr []"
  by (simp add: validate_input_data_def ndim_def shape0_def)

text \<open>The same difference in \<^verbatim>\<open>confounds\<close> is an error.\<close>

lemma confounds_sample_count_checked:
  "validate_input_data (InArray [10, 3]) (InArray [10]) (Some (InArray [7, 2])) None None
     = Inl (Raised XConfoundsSamplesDiffer)"
  by (simp add: validate_input_data_def ndim_def shape0_def)

section \<open>Hyperparameters with one candidate\<close>

text \<open>
  Claim C4. A list with one element takes the branch of lines 326-327, which
  looks up \<^verbatim>\<open>pipeline.set_param\<close> and passes the list itself, without a name: on
  a pipeline with the scikit-learn interface the call is an \<^verbatim>\<open>AttributeError\<close>,
  and nothing is assigned.
\<close>

theorem single_element_list_not_applied:
  "prepare_hyperparams [(''features__impute__n_neighbors'', PList [PInt 5])] sklearn_pipeline ''svm''
     = Inl AttributeError"
  by (simp add: prepare_hyperparams_def sklearn_pipeline_def)

text \<open>The same value without the list is assigned under the rewritten path.\<close>

lemma scalar_applied_under_rewritten_path:
  "prepare_hyperparams [(''features__impute__n_neighbors'', PInt 5)] sklearn_pipeline ''svm''
     = Inr (sklearn_pipeline
              \<lparr>pipeline_state := [(''dataframe_pipeline__impute__n_neighbors'', PInt 5)]\<rparr>, [])"
  by (simp add: prepare_hyperparams_def sklearn_pipeline_def rename_param_def)

section \<open>Confound preprocessing steps\<close>

text \<open>
  The loop keeps only what the last step gave: each round overwrites
  \<^verbatim>\<open>returned_features\<close>.
\<close>

lemma confound_policy_loop_last:
  "confound_policy_loop gt steps init = Inr p \<Longrightarrow> steps \<noteq> [] \<Longrightarrow>
     \<exists>rf. get_confound_transformer gt (last steps) = Inr rf
          \<and> p = (if rf = ''unknown'' then ''unknown_same_type'' else rf)"
proof (induction steps arbitrary: init)
  case Nil
  then show ?case by simp
next
  case (Cons st steps)
  from Cons.prems(1) obtain rf where
    rf: "get_confound_transformer gt st = Inr rf" and
    rest: "confound_policy_loop gt steps
             (if rf = ''unknown'' then ''unknown_same_type'' else rf) = Inr p"
    by (cases "get_confound_transformer gt st") simp_all
  show ?case
  proof (cases "steps = []")
    case True
    with rest have "p = (if rf = ''unknown'' then ''unknown_same_type'' else rf)"
      by simp
    with rf True show ?thesis by simp
  next
    case False
    from Cons.IH [OF rest False] False show ?thesis by simp
  qed
qed

lemma create_all_length:
  "create_all gt steps = Inr bs \<Longrightarrow> length bs = length steps"
proof (induction steps arbitrary: bs)
  case Nil
  then show ?case by simp
next
  case (Cons st steps)
  from Cons.prems obtain b bs' where
    "create_all gt steps = Inr bs'" and "bs = b # bs'"
    by (cases "create_preprocess_tuple gt st"; cases "create_all gt steps") auto
  with Cons.IH show ?case by simp
qed

lemma replace_policy_all:
  "replace_policy p bs = Inr ts \<Longrightarrow>
     map (\<lambda>t. fst (snd (snd t))) ts = replicate (length bs) p"
proof (induction p bs arbitrary: ts rule: replace_policy.induct)
  case (1 p)
  then show ?case by simp
next
  case (2 p l bs)
  then show ?case by simp
next
  case (3 p trans_name tr rf cols bs)
  from "3.prems" obtain ts' where
    "replace_policy p bs = Inr ts'" and "ts = (trans_name, tr, p, cols) # ts'"
    by (cases "replace_policy p bs") auto
  with "3.IH" show ?case by simp
qed

text \<open>
  Claim C7, as amended. When the builder returns for a non-empty list of steps,
  the last step resolved to some policy \<open>rf\<close>, and every returned tuple carries,
  in its third place, that policy with \<^verbatim>\<open>unknown\<close> replaced by
  \<^verbatim>\<open>unknown_same_type\<close>; there is one tuple per step. The policies of the
  earlier steps are not compared with it.
\<close>

theorem confound_steps_carry_last_policy:
  assumes "prepare_preprocess_confounds gt steps = Inr tuples"
      and "steps \<noteq> []"
  shows "\<exists>rf. get_confound_transformer gt (last steps) = Inr rf
           \<and> map (\<lambda>t. fst (snd (snd t))) tuples
               = replicate (length steps) (if rf = ''unknown'' then ''unknown_same_type'' else rf)"
proof -
  from assms(1) obtain p where
    p: "confound_policy_loop gt steps ''unknown_same_type'' = Inr p"
    by (cases "confound_policy_loop gt steps ''unknown_same_type''")
       (simp_all add: prepare_preprocess_confounds_def)
  with assms(1) obtain bs where
    bs: "create_all gt steps = Inr bs" and
    ts: "replace_policy p bs = Inr tuples"
    by (cases "create_all gt steps") (simp_all add: prepare_preprocess_confounds_def)
  from confound_policy_loop_last [OF p assms(2)] obtain rf where
    rf: "get_confound_transformer gt (last steps) = Inr rf"
        "p = (if rf = ''unknown'' then ''unknown_same_type'' else rf)"
    by blast
  from replace_policy_all [OF ts] create_all_length [OF bs]
  have "map (\<lambda>t. fst (snd (snd t))) tuples = replicate (length steps) p" by simp
  with rf show ?thesis by blast
qed

text \<open>Two named steps whose policies differ (\<^verbatim>\<open>same\<close> and \<^verbatim>\<open>unknown\<close>).\<close>

lemma two_confound_steps:
  "prepare_preprocess_confounds example_get_transformer [StepStr ''zscore'', StepStr ''pca'']
     = Inr [(''zscore'', some_estimator, ''unknown_same_type'', ColStr ''continuous''),
            (''pca'', some_estimator, ''unknown_same_type'', ColStr ''continuous'')]"
  by (simp add: prepare_preprocess_confounds_def get_confound_transformer_def
        example_get_transformer_def create_preprocess_tuple_def Let_def)

theorem confound_steps_carry_last_policy_witness:
  "get_confound_transformer example_get_transformer (last [StepStr ''zscore'', StepStr ''pca''])
     = Inr ''unknown''
   \<and> map (\<lambda>t. fst (snd (snd t)))
        [(''zscore'', some_estimator, ''unknown_same_type'', ColStr ''continuous''),
         (''pca'', some_estimator, ''unknown_same_type'', ColStr ''continuous'')]
     = replicate (length [StepStr ''zscore'', StepStr ''pca'']) ''unknown_same_type''"
proof -
  have l: "get_confound_transformer example_get_transformer
             (last [StepStr ''zscore'', StepStr ''pca'']) = Inr ''unknown''"
    by (simp add: get_confound_transformer_def example_get_transformer_def)
  from confound_steps_carry_last_policy [OF two_confound_steps] obtain rf where
    "get_confound_transformer example_get_transformer
       (last [StepStr ''zscore'', StepStr ''pca'']) = Inr rf"
    "map (\<lambda>t. fst (snd (snd t)))
        [(''zscore'', some_estimator, ''unknown_same_type'', ColStr ''continuous''),
         (''pca'', some_estimator, ''unknown_same_type'', ColStr ''continuous'')]
     = replicate (length [StepStr ''zscore'', StepStr ''pca''])
         (if rf = ''unknown'' then ''unknown_same_type'' else rf)"
    by blast
  with l show ?thesis by simp
qed

text \<open>
  Claim C7 as stated asks that the policies of the steps agree. The steps
  \<^verbatim>\<open>zscore\<close> (policy \<^verbatim>\<open>same\<close>) and \<^verbatim>\<open>pca\<close> (policy \<^verbatim>\<open>unknown\<close>) do not, and
  the builder returns all the same: both tuples get the policy of the last step.
\<close>

theorem confound_policies_need_not_agree:
  "get_confound_transformer example_get_transformer (StepStr ''zscore'') = Inr ''same''
   \<and> get_confound_transformer example_get_transformer (StepStr ''pca'') = Inr ''unknown''
   \<and> prepare_preprocess_confounds example_get_transformer [StepStr ''zscore'', StepStr ''pca'']
     = Inr [(''zscore'', some_estimator, ''unknown_same_type'', ColStr ''continuous''),
            (''pca'', some_estimator, ''unknown_same_type'', ColStr ''continuous'')]"
  by (simp add: prepare_preprocess_confounds_def get_confound_transformer_def
        example_get_transformer_def create_preprocess_tuple_def Let_def)

section \<open>The policy \<^verbatim>\<open>unknown_same_type\<close>\<close>

lemma age_type: "get_column_type ''__:type:__'' ''age__:type:__confound'' = Inr ''confound''"
  by (simp add: get_column_type_def str_split_def)

lemma x_type: "get_column_type ''__:type:__'' ''x__:type:__continuous'' = Inr ''continuous''"
  by (simp add: get_column_type_def str_split_def)

text \<open>The label \<^verbatim>\<open>'0'\<close> of an array's first column holds no separator.\<close>

lemma zero_type: "get_column_type ''__:type:__'' ''0'' = Inr ''continuous''"
  by (simp add: get_column_type_def str_split_def)

lemma resolve_age:
  "resolve_columns pca_on_confounds age_table = Inr [''age__:type:__confound'']"
  by (simp add: resolve_columns_def pca_on_confounds_def make_wrapper_def column_types_def
        get_columns_of_type_def age_table_def columns_def age_type x_type)

lemma fit_age:
  "fit pca_on_confounds age_table ()
     = Inr (pca_on_confounds\<lparr>transform_column_fitted := Some [''age__:type:__confound'']\<rparr>)"
  by (simp add: fit_def set_columns_to_transform_def resolve_age loc_columns_def)
     (simp add: pca_on_confounds_def make_wrapper_def identity_transformer_def
        age_table_def columns_def)

lemma lower_PCA: "lower ''PCA'' = ''pca''"
  by (simp add: lower_def lower_char_def)

lemma reassemble_age:
  "reassemble [] (pca_on_confounds\<lparr>transform_column_fitted := Some [''age__:type:__confound'']\<rparr>)
     age_table [(''age__:type:__confound'', [30, 41])] [(''x__:type:__continuous'', [1, 2])]
     [(''0'', [30, 41])]
   = Inr [(''pca_component:0__:type:__continuous'', [30, 41]),
          (''x__:type:__continuous'', [1, 2])]"
proof -
  have rf: "returned_features (pca_on_confounds\<lparr>transform_column_fitted := Some [''age__:type:__confound'']\<rparr>) = ''unknown_same_type''"
       and tc: "transform_column (pca_on_confounds\<lparr>transform_column_fitted := Some [''age__:type:__confound'']\<rparr>) = ColStr ''confound''"
       and sep: "column_type_sep (pca_on_confounds\<lparr>transform_column_fitted := Some [''age__:type:__confound'']\<rparr>) = ''__:type:__''"
       and cn: "class_name (transformer (pca_on_confounds\<lparr>transform_column_fitted := Some [''age__:type:__confound'']\<rparr>)) = ''PCA''"
    by (simp_all add: pca_on_confounds_def make_wrapper_def identity_transformer_def)
  show ?thesis
    unfolding reassemble_def rf tc sep cn lower_PCA Let_def
    by (simp add: spans_several_types_def columns_def zero_type component_name_def digit_char_def
          set_columns_def)
qed

text \<open>
  Claim C3. The wrapper selects the columns tagged \<^verbatim>\<open>confound\<close> under the policy
  \<^verbatim>\<open>unknown_same_type\<close>; it is fitted on a table whose only confound is
  \<^verbatim>\<open>age__:type:__confound\<close>, and the transformer returns an array of one column.
  The generated name does not carry the tag \<^verbatim>\<open>confound\<close> of the selected column:
  lines 116-119 read the tag from the labels of the transformer's output, which
  for an array are \<^verbatim>\<open>'0', '1', ...\<close>, so the tag is \<^verbatim>\<open>continuous\<close>.
\<close>

theorem same_type_policy_tags_continuous:
  "fit pca_on_confounds age_table ()
     = Inr (pca_on_confounds\<lparr>transform_column_fitted := Some [''age__:type:__confound'']\<rparr>)
   \<and> transform [] (pca_on_confounds\<lparr>transform_column_fitted := Some [''age__:type:__confound'']\<rparr>)
        age_table
     = Inr [(''pca_component:0__:type:__continuous'', [30, 41]),
            (''x__:type:__continuous'', [1, 2])]"
proof -
  have loc: "loc_columns age_table [''age__:type:__confound'']
               = Inr [(''age__:type:__confound'', [30, 41])]"
    by (simp add: loc_columns_def age_table_def columns_def)
  have rest: "drop_columns age_table [''age__:type:__confound'']
               = Inr [(''x__:type:__continuous'', [1, 2])]"
    by (simp add: drop_columns_def age_table_def columns_def)
  have out: "transform_method (transformer pca_on_confounds) ()
               [(''age__:type:__confound'', [30, 41])] = Inr (Array [[30, 41]])"
    by (simp add: pca_on_confounds_def make_wrapper_def identity_transformer_def)
  have fr: "frame_of_transformed (Array [[30, 41 :: int]]) = [(''0'', [30, 41])]"
    by (simp add: frame_of_transformed_def digit_char_def)
  have "transform [] (pca_on_confounds\<lparr>transform_column_fitted := Some [''age__:type:__confound'']\<rparr>)
        age_table
     = Inr [(''pca_component:0__:type:__continuous'', [30, 41]),
            (''x__:type:__continuous'', [1, 2])]"
    unfolding transform_def
    by (simp add: loc rest out fr reassemble_age)
  with fit_age show ?thesis by simp
qed

end
